theory Spec2Isabelle
  imports Main
begin

section \<open>New Year countdown: the time arithmetic of script.js\<close>

text \<open>
  Time values are JavaScript Date time values: whole milliseconds since the epoch, and
  the difference of two Dates is a whole number of milliseconds. They are modelled as
  \<open>int\<close>; the rounding of double arithmetic, which these magnitudes do not reach, is not
  part of the model. The global \<open>targetDate\<close> is an argument of the functions that read
  it: a valid Date in \<open>tick\<close> and \<open>updateCountdown\<close>, and any state of the global
  (undefined and Invalid Date included) in \<open>updateCountdown_global\<close>. The DOM is modelled
  by the record \<open>page\<close> below, which keeps the text of the
  four countdown fields, the visibility of the countdown and celebration views and whether
  the interval timer is running; the cosmetic effects (pulse animation, fireworks, console
  output) are left out.
\<close>

subsection \<open>JavaScript arithmetic on whole numbers\<close>

text \<open>
  \<open>Math.floor(a / b)\<close> on whole numbers with \<open>b > 0\<close> is the floor quotient, which is
  \<open>div\<close> on \<open>int\<close>. The operator \<open>%\<close> truncates: the result has the sign of the
  dividend. The script only divides by the literals 1000, 60 and 24.
\<close>

definition js_floor_div :: "int \<Rightarrow> int \<Rightarrow> int" where
  "js_floor_div a b = a div b"

definition js_rem :: "int \<Rightarrow> int \<Rightarrow> int" where
  "js_rem a b = sgn a * (\<bar>a\<bar> mod \<bar>b\<bar>)"

subsection \<open>calculateTimeUnits\<close>

record TimeUnits =
  days :: int
  hours :: int
  minutes :: int
  seconds :: int

definition calculateTimeUnits :: "int \<Rightarrow> TimeUnits" where
  "calculateTimeUnits milliseconds =
     (let seconds' = js_floor_div milliseconds 1000;
          minutes' = js_floor_div seconds' 60;
          hours' = js_floor_div minutes' 60;
          days' = js_floor_div hours' 24
      in \<lparr> days = days',
           hours = js_rem hours' 24,
           minutes = js_rem minutes' 60,
           seconds = js_rem seconds' 60 \<rparr>)"

subsection \<open>Formatting: toString and padStart\<close>

text \<open>The decimal digit \<open>d\<close>, for \<open>d < 10\<close>; it is applied to a number below 10 or to
  a remainder modulo 10 only.\<close>

definition digit_char :: "nat \<Rightarrow> char" where
  "digit_char d = ''0123456789'' ! d"

fun nat_digits :: "nat \<Rightarrow> string" where
  "nat_digits n = (if n < 10 then [digit_char n]
                   else nat_digits (n div 10) @ [digit_char (n mod 10)])"

declare nat_digits.simps [simp del]

text \<open>\<open>Number.prototype.toString\<close> on a whole number (below \<open>10^21\<close> in size, as every
  time unit is): decimal digits, with a minus sign for a negative number.\<close>

definition toString :: "int \<Rightarrow> string" where
  "toString n = (if n < 0 then CHR ''-'' # nat_digits (nat (- n)) else nat_digits (nat n))"

text \<open>\<open>String.prototype.padStart(targetLength, padString)\<close>: the string is returned as it
  is when it is long enough or the filler is empty; otherwise the filler is repeated and
  truncated to the missing length and put in front.\<close>

definition padStart :: "nat \<Rightarrow> string \<Rightarrow> string \<Rightarrow> string" where
  "padStart targetLength padString s =
     (if targetLength \<le> length s \<or> padString = [] then s
      else take (targetLength - length s)
             (concat (replicate (targetLength - length s) padString)) @ s)"

definition formatNumber :: "int \<Rightarrow> string" where
  "formatNumber num = padStart 2 ''0'' (toString num)"

subsection \<open>The page\<close>

record page =
  days_text :: string
  hours_text :: string
  minutes_text :: string
  seconds_text :: string
  countdown_visible :: bool
  target_date_visible :: bool
  celebration_shown :: bool
  interval_running :: bool

definition updateDisplay :: "TimeUnits \<Rightarrow> page \<Rightarrow> page" where
  "updateDisplay timeUnits p =
     p\<lparr> days_text := formatNumber (days timeUnits),
        hours_text := formatNumber (hours timeUnits),
        minutes_text := formatNumber (minutes timeUnits),
        seconds_text := formatNumber (seconds timeUnits) \<rparr>"

definition showCelebration :: "page \<Rightarrow> page" where
  "showCelebration p =
     p\<lparr> interval_running := False,
        countdown_visible := False,
        target_date_visible := False,
        celebration_shown := True \<rparr>"

subsection \<open>updateCountdown\<close>

text \<open>
  One run of \<open>updateCountdown\<close> either takes the early return through
  \<open>showCelebration\<close> or decomposes the remaining time and displays it. \<open>TickResult\<close>
  names the two outcomes. Here \<open>targetDate\<close> is a valid Date, so that the difference is
  a whole number of milliseconds; the run for any state of the global follows below. The
  function that decomposes is a parameter of \<open>updateCountdown_with\<close>; the script's own
  function is the instance \<open>tick\<close>.
\<close>

datatype TickResult = Elapsed | Counting TimeUnits

definition updateCountdown_with ::
  "(int \<Rightarrow> TimeUnits) \<Rightarrow> int \<Rightarrow> int \<Rightarrow> TickResult" where
  "updateCountdown_with calc targetDate now =
     (let timeDifference = targetDate - now
      in if timeDifference \<le> 0 then Elapsed
         else Counting (calc timeDifference))"

definition tick :: "int \<Rightarrow> int \<Rightarrow> TickResult" where
  "tick targetDate now = updateCountdown_with calculateTimeUnits targetDate now"

definition updateCountdown :: "int \<Rightarrow> int \<Rightarrow> page \<Rightarrow> page" where
  "updateCountdown targetDate now p =
     (case tick targetDate now of
        Elapsed \<Rightarrow> showCelebration p
      | Counting timeUnits \<Rightarrow> updateDisplay timeUnits p)"

subsection \<open>updateCountdown over the global targetDate\<close>

text \<open>
  The global \<open>targetDate\<close> is undefined until \<open>initializeCountdown\<close> has run, and it
  holds an Invalid Date when the constructor's result is outside the Date range. The
  \<open>visibilitychange\<close> listener and the export call \<open>updateCountdown\<close> whatever the global
  holds. In both states \<open>targetDate - now\<close> is NaN, \<open>NaN <= 0\<close> is false, and
  \<open>Math.floor\<close>, \<open>/\<close> and \<open>%\<close> give NaN on NaN. Here a Number of the script is a whole
  number or NaN, and \<open>targetDate\<close> is \<open>None\<close> when it is undefined or an Invalid Date.
  The function that decomposes is again a parameter of \<open>updateCountdown_global_with\<close>;
  the script's own function is the instance \<open>updateCountdown_global\<close>.
\<close>

datatype number = NaN | Whole int

definition floor_div_number :: "number \<Rightarrow> int \<Rightarrow> number" where
  "floor_div_number x b = (case x of NaN \<Rightarrow> NaN | Whole a \<Rightarrow> Whole (js_floor_div a b))"

definition rem_number :: "number \<Rightarrow> int \<Rightarrow> number" where
  "rem_number x b = (case x of NaN \<Rightarrow> NaN | Whole a \<Rightarrow> Whole (js_rem a b))"

record NumberUnits =
  days_number :: number
  hours_number :: number
  minutes_number :: number
  seconds_number :: number

definition calculateTimeUnits_number :: "number \<Rightarrow> NumberUnits" where
  "calculateTimeUnits_number milliseconds =
     (let seconds' = floor_div_number milliseconds 1000;
          minutes' = floor_div_number seconds' 60;
          hours' = floor_div_number minutes' 60;
          days' = floor_div_number hours' 24
      in \<lparr> days_number = days',
           hours_number = rem_number hours' 24,
           minutes_number = rem_number minutes' 60,
           seconds_number = rem_number seconds' 60 \<rparr>)"

definition date_minus :: "int option \<Rightarrow> int \<Rightarrow> number" where
  "date_minus targetDate now =
     (case targetDate of None \<Rightarrow> NaN | Some t \<Rightarrow> Whole (t - now))"

definition le_zero :: "number \<Rightarrow> bool" where
  "le_zero x = (case x of NaN \<Rightarrow> False | Whole a \<Rightarrow> a \<le> 0)"


datatype Run = Celebrated | Displayed NumberUnits

definition updateCountdown_global_with ::
  "(number \<Rightarrow> NumberUnits) \<Rightarrow> int option \<Rightarrow> int \<Rightarrow> Run" where
  "updateCountdown_global_with calc targetDate now =
     (let timeDifference = date_minus targetDate now
      in if le_zero timeDifference then Celebrated
         else Displayed (calc timeDifference))"

definition updateCountdown_global :: "int option \<Rightarrow> int \<Rightarrow> Run" where
  "updateCountdown_global targetDate now =
     updateCountdown_global_with calculateTimeUnits_number targetDate now"

subsection \<open>The Date built-ins used by initializeCountdown\<close>

text \<open>
  \<open>new Date()\<close>, \<open>getFullYear\<close> and the constructor
  \<open>new Date(year, month, date, hours, minutes, seconds)\<close> belong to the host, not to the
  script. They are modelled after the ECMAScript definitions of the Date abstract
  operations (\<open>Day\<close>, \<open>DayFromYear\<close>, \<open>TimeFromYear\<close>, \<open>YearFromTime\<close>, \<open>MakeDay\<close>,
  \<open>MakeTime\<close>, \<open>MakeDate\<close>, \<open>MakeFullYear\<close>, \<open>TimeClip\<close>, \<open>LocalTime\<close>, \<open>UTC\<close>), with
  two choices:
  \<^item> the local time zone of the host is the parameter \<open>tza\<close>, the \<open>LocalTZA(t, isUTC)\<close> of
    ECMAScript: \<open>tza t True\<close> is the offset in milliseconds in force at the instant \<open>t\<close>,
    and \<open>tza t False\<close> is the offset by which the host reads the local time value \<open>t\<close>.
    The offset may depend on \<open>t\<close>, as it does with daylight saving;
  \<^item> an Invalid Date (time value NaN) is \<open>None\<close>.
  \<open>YearFromTime t\<close> is specified as the largest year \<open>y\<close> with \<open>TimeFromYear y \<le> t\<close>; the
  definition below computes it from an estimate that is off by at most one, and
  \<open>YearFromTime_bounds\<close> and \<open>YearFromTime_largest\<close> show that it meets the specification.
\<close>

definition msPerDay :: int where
  "msPerDay = 86400000"

definition Day :: "int \<Rightarrow> int" where
  "Day t = t div msPerDay"

definition DayFromYear :: "int \<Rightarrow> int" where
  "DayFromYear y =
     365 * (y - 1970) + (y - 1969) div 4 - (y - 1901) div 100 + (y - 1601) div 400"

definition TimeFromYear :: "int \<Rightarrow> int" where
  "TimeFromYear y = msPerDay * DayFromYear y"

definition YearFromDay :: "int \<Rightarrow> int" where
  "YearFromDay d =
     (let y = 1970 + (400 * d) div 146097
      in if DayFromYear (y + 1) \<le> d then y + 1
         else if DayFromYear y \<le> d then y
         else y - 1)"

definition YearFromTime :: "int \<Rightarrow> int" where
  "YearFromTime t = YearFromDay (Day t)"

definition DaysInYear :: "int \<Rightarrow> int" where
  "DaysInYear y =
     (if y mod 4 \<noteq> 0 then 365
      else if y mod 100 \<noteq> 0 then 366
      else if y mod 400 \<noteq> 0 then 365
      else 366)"

definition DaysBeforeMonth :: "int \<Rightarrow> int \<Rightarrow> int" where
  "DaysBeforeMonth y mn =
     (let leap = (if DaysInYear y = 366 then 1 else 0)
      in [0, 31, 59 + leap, 90 + leap, 120 + leap, 151 + leap, 181 + leap, 212 + leap,
          243 + leap, 273 + leap, 304 + leap, 334 + leap] ! nat mn)"

definition MakeDay :: "int \<Rightarrow> int \<Rightarrow> int \<Rightarrow> int" where
  "MakeDay year month date =
     (let ym = year + month div 12;
          mn = month mod 12
      in DayFromYear ym + DaysBeforeMonth ym mn + date - 1)"

definition MakeTime :: "int \<Rightarrow> int \<Rightarrow> int \<Rightarrow> int \<Rightarrow> int" where
  "MakeTime hour minute sec ms = hour * 3600000 + minute * 60000 + sec * 1000 + ms"

definition MakeDate :: "int \<Rightarrow> int \<Rightarrow> int" where
  "MakeDate day time = day * msPerDay + time"

definition TimeClip :: "int \<Rightarrow> int option" where
  "TimeClip t = (if 8640000000000000 < \<bar>t\<bar> then None else Some t)"

definition LocalTime :: "(int \<Rightarrow> bool \<Rightarrow> int) \<Rightarrow> int \<Rightarrow> int" where
  "LocalTime tza t = t + tza t True"

definition UTC :: "(int \<Rightarrow> bool \<Rightarrow> int) \<Rightarrow> int \<Rightarrow> int" where
  "UTC tza t = t - tza t False"

definition getFullYear :: "(int \<Rightarrow> bool \<Rightarrow> int) \<Rightarrow> int \<Rightarrow> int" where
  "getFullYear tza t = YearFromTime (LocalTime tza t)"

text \<open>The constructor maps a year from 0 to 99 to 1900 + year, and clips the result to
  the Date range.\<close>

definition MakeFullYear :: "int \<Rightarrow> int" where
  "MakeFullYear year = (if 0 \<le> year \<and> year \<le> 99 then 1900 + year else year)"

definition Date_new ::
  "(int \<Rightarrow> bool \<Rightarrow> int) \<Rightarrow> int \<Rightarrow> int \<Rightarrow> int \<Rightarrow> int \<Rightarrow> int \<Rightarrow> int \<Rightarrow> int option" where
  "Date_new tza year month date hour minute sec =
     (let yr = MakeFullYear year;
          finalDate = MakeDate (MakeDay yr month date) (MakeTime hour minute sec 0)
      in TimeClip (UTC tza finalDate))"

text \<open>\<open>now >= d\<close> for a valid Date \<open>now\<close>: the comparison with an Invalid Date is
  false.\<close>

definition date_ge :: "int \<Rightarrow> int option \<Rightarrow> bool" where
  "date_ge now d = (case d of None \<Rightarrow> False | Some t \<Rightarrow> t \<le> now)"

text \<open>
  Two hosts for the examples. \<open>fixed_zone offset\<close> has the same offset at all times.
  \<open>sydney_2024\<close> is Australia/Sydney around 2024: eleven hours ahead of UTC in summer, ten
  in winter; daylight saving ended on 6 April 2024 at 16:00 UTC and began again on
  5 October 2024 at 16:00 UTC. A local time of the repeated or of the skipped hour is read
  with the offset before the transition.
\<close>

definition fixed_zone :: "int \<Rightarrow> int \<Rightarrow> bool \<Rightarrow> int" where
  "fixed_zone offset t isUTC = offset"

definition sydney_2024 :: "int \<Rightarrow> bool \<Rightarrow> int" where
  "sydney_2024 t isUTC =
     (if isUTC then (if 1712419200000 \<le> t \<and> t < 1728144000000 then 36000000 else 39600000)
      else (if 1712458800000 \<le> t \<and> t < 1728183600000 then 36000000 else 39600000))"

subsection \<open>initializeCountdown\<close>

text \<open>
  \<open>initializeCountdown\<close> reads the clock (\<open>now\<close>, a valid Date) and stores the global
  \<open>targetDate\<close>; it writes \<open>targetYear\<close> to the two year labels of the page. The model
  returns the pair \<open>(targetYear, targetDate)\<close>.
\<close>

definition initializeCountdown :: "(int \<Rightarrow> bool \<Rightarrow> int) \<Rightarrow> int \<Rightarrow> int \<times> int option" where
  "initializeCountdown tza now =
     (let currentYear = getFullYear tza now;
          targetYear = currentYear + 1;
          newYearThisYear = Date_new tza currentYear 0 1 0 0 0;
          targetYear = (if date_ge now newYearThisYear then currentYear + 1 else targetYear);
          targetDate = Date_new tza targetYear 0 1 0 0 0
      in (targetYear, targetDate))"

text \<open>The reimplementation that the design notes ask for: it targets
  \<open>currentYear + 1\<close> without the conditional.\<close>

definition initialize_unconditional ::
  "(int \<Rightarrow> bool \<Rightarrow> int) \<Rightarrow> int \<Rightarrow> int \<times> int option" where
  "initialize_unconditional tza now =
     (let currentYear = getFullYear tza now;
          targetYear = currentYear + 1
      in (targetYear, Date_new tza targetYear 0 1 0 0 0))"

subsection \<open>Reference decomposition\<close>

text \<open>The decomposition with the floor quotient and the non-negative remainder of
  mathematics throughout, to compare \<open>calculateTimeUnits\<close> with.\<close>

definition decompose_floor_mod :: "int \<Rightarrow> TimeUnits" where
  "decompose_floor_mod ms =
     \<lparr> days = ms div 1000 div 60 div 60 div 24,
       hours = ms div 1000 div 60 div 60 mod 24,
       minutes = ms div 1000 div 60 mod 60,
       seconds = ms div 1000 mod 60 \<rparr>"

text \<open>The same units as Numbers, and the reference decomposition on a Number.\<close>

definition number_units :: "TimeUnits \<Rightarrow> NumberUnits" where
  "number_units u =
     \<lparr> days_number = Whole (days u),
       hours_number = Whole (hours u),
       minutes_number = Whole (minutes u),
       seconds_number = Whole (seconds u) \<rparr>"


text \<open>What a field shows when it is padded to two characters with zeros.\<close>

definition zero_padded2 :: "int \<Rightarrow> string" where
  "zero_padded2 n = (if 0 \<le> n \<and> n < 10 then [CHR ''0'', digit_char (nat n)] else toString n)"

section \<open>Properties\<close>

subsection \<open>Arithmetic of the decomposition\<close>

lemma js_rem_nonneg: "0 \<le> a \<Longrightarrow> 0 < b \<Longrightarrow> js_rem a b = a mod b"
  by (cases "a = 0") (simp_all add: js_rem_def)

lemma calculateTimeUnits_nonneg:
  assumes "0 \<le> ms"
  shows "calculateTimeUnits ms = decompose_floor_mod ms"
proof -
  have s: "0 \<le> ms div 1000" using assms by (simp add: pos_imp_zdiv_nonneg_iff)
  then have m: "0 \<le> ms div 1000 div 60" by (simp add: pos_imp_zdiv_nonneg_iff)
  then have h: "0 \<le> ms div 1000 div 60 div 60" by (simp add: pos_imp_zdiv_nonneg_iff)
  show ?thesis
    using s m h
    by (simp add: calculateTimeUnits_def decompose_floor_mod_def js_floor_div_def
        js_rem_nonneg Let_def)
qed

lemma tick_positive:
  "0 < target - now \<Longrightarrow> tick target now = Counting (calculateTimeUnits (target - now))"
  by (simp add: tick_def updateCountdown_with_def)

lemma tick_nonpositive: "target - now \<le> 0 \<Longrightarrow> tick target now = Elapsed"
  by (simp add: tick_def updateCountdown_with_def)

lemma recompose:
  fixes d :: int
  shows "d div 1000 div 60 div 60 div 24 * 86400000
         + d div 1000 div 60 div 60 mod 24 * 3600000
         + d div 1000 div 60 mod 60 * 60000
         + d div 1000 mod 60 * 1000
         + d mod 1000 = d"
proof -
  define s where "s = d div 1000"
  define m where "m = s div 60"
  define h where "h = m div 60"
  define D where "D = h div 24"
  define H where "H = h mod 24"
  define M where "M = m mod 60"
  define S where "S = s mod 60"
  define r where "r = d mod 1000"
  have 1: "d = 1000 * s + r" by (simp add: s_def r_def)
  have 2: "s = 60 * m + S" by (simp add: m_def S_def)
  have 3: "m = 60 * h + M" by (simp add: h_def M_def)
  have 4: "h = 24 * D + H" by (simp add: D_def H_def)
  have "D * 86400000 + H * 3600000 + M * 60000 + S * 1000 + r = d"
    using 1 2 3 4 by linarith
  then show ?thesis
    by (simp only: s_def m_def h_def D_def H_def M_def S_def r_def)
qed

lemma day_quotient:
  fixes d :: int
  shows "d div 1000 div 60 div 60 div 24 = d div 86400000"
  by (simp add: div_mult2_eq [symmetric])

lemma int_mod_le_pred:
  fixes x k :: int
  assumes "0 < k"
  shows "0 \<le> x mod k" and "x mod k \<le> k - 1"
proof -
  show "0 \<le> x mod k" using assms by simp
  have "x mod k < k" using assms by simp
  then show "x mod k \<le> k - 1" by simp
qed

subsection \<open>Formatting\<close>

lemma nat_digits_small: "n < 10 \<Longrightarrow> nat_digits n = [digit_char n]"
  by (simp add: nat_digits.simps)

lemma nat_digits_nonempty: "1 \<le> length (nat_digits n)"
  by (subst nat_digits.simps) simp

lemma nat_digits_large: "10 \<le> n \<Longrightarrow> 2 \<le> length (nat_digits n)"
  using nat_digits_nonempty [of "n div 10"] by (subst nat_digits.simps) simp

lemma formatNumber_zero_padded2: "formatNumber n = zero_padded2 n"
proof -
  consider "n < 0" | "0 \<le> n" "n < 10" | "10 \<le> n" by linarith
  then show ?thesis
  proof cases
    case 1
    then have "2 \<le> length (toString n)"
      using nat_digits_nonempty [of "nat (- n)"] by (simp add: toString_def)
    with 1 show ?thesis by (simp add: formatNumber_def padStart_def zero_padded2_def)
  next
    case 2
    then have "toString n = [digit_char (nat n)]"
      by (simp add: toString_def nat_digits_small)
    with 2 show ?thesis by (simp add: formatNumber_def padStart_def zero_padded2_def)
  next
    case 3
    then have "2 \<le> length (toString n)"
      using nat_digits_large [of "nat n"] by (simp add: toString_def)
    with 3 show ?thesis by (simp add: formatNumber_def padStart_def zero_padded2_def)
  qed
qed

subsection \<open>The calendar\<close>

lemma int_div_bounds:
  fixes x k :: int
  assumes "0 < k"
  shows "k * (x div k) \<le> x" and "x < k * (x div k) + k"
proof -
  have e: "x = k * (x div k) + x mod k" by simp
  have "0 \<le> x mod k" and "x mod k < k" using assms by simp_all
  then show "k * (x div k) \<le> x" and "x < k * (x div k) + k" using e by linarith+
qed

lemma DayFromYear_split:
  obtains a b c where
    "DayFromYear y = 365 * y - 719050 + a - b + c"
    "4 * a \<le> y - 1969" "y - 1969 < 4 * a + 4"
    "100 * b \<le> y - 1901" "y - 1901 < 100 * b + 100"
    "400 * c \<le> y - 1601" "y - 1601 < 400 * c + 400"
proof -
  define a where "a = (y - 1969) div 4"
  define b where "b = (y - 1901) div 100"
  define c where "c = (y - 1601) div 400"
  have "DayFromYear y = 365 * y - 719050 + a - b + c"
    by (simp add: DayFromYear_def a_def b_def c_def)
  moreover have "4 * a \<le> y - 1969" "y - 1969 < 4 * a + 4"
    unfolding a_def by (rule int_div_bounds, simp)+
  moreover have "100 * b \<le> y - 1901" "y - 1901 < 100 * b + 100"
    unfolding b_def by (rule int_div_bounds, simp)+
  moreover have "400 * c \<le> y - 1601" "y - 1601 < 400 * c + 400"
    unfolding c_def by (rule int_div_bounds, simp)+
  ultimately show thesis by (rule that)
qed

lemma DayFromYear_step: "DayFromYear y < DayFromYear (y + 1)"
proof -
  define z where "z = y + 1"
  obtain a b c where 1:
    "DayFromYear y = 365 * y - 719050 + a - b + c"
    "4 * a \<le> y - 1969" "y - 1969 < 4 * a + 4"
    "100 * b \<le> y - 1901" "y - 1901 < 100 * b + 100"
    "400 * c \<le> y - 1601" "y - 1601 < 400 * c + 400"
    by (rule DayFromYear_split)
  obtain a' b' c' where 2:
    "DayFromYear z = 365 * z - 719050 + a' - b' + c'"
    "4 * a' \<le> z - 1969" "z - 1969 < 4 * a' + 4"
    "100 * b' \<le> z - 1901" "z - 1901 < 100 * b' + 100"
    "400 * c' \<le> z - 1601" "z - 1601 < 400 * c' + 400"
    by (rule DayFromYear_split)
  have "DayFromYear y < DayFromYear z" using 1 2 z_def by linarith
  then show ?thesis by (simp add: z_def)
qed

lemma DayFromYear_below:
  assumes "146097 * q \<le> 400 * d"
  shows "DayFromYear (1970 + q - 1) \<le> d"
proof -
  define z where "z = 1969 + q"
  obtain a b c where 1:
    "DayFromYear z = 365 * z - 719050 + a - b + c"
    "4 * a \<le> z - 1969" "z - 1969 < 4 * a + 4"
    "100 * b \<le> z - 1901" "z - 1901 < 100 * b + 100"
    "400 * c \<le> z - 1601" "z - 1601 < 400 * c + 400"
    by (rule DayFromYear_split)
  have "DayFromYear z \<le> d" using 1 assms z_def by linarith
  then show ?thesis by (simp add: z_def)
qed

lemma DayFromYear_above:
  assumes "400 * d < 146097 * q + 146097"
  shows "d < DayFromYear (1970 + q + 2)"
proof -
  define z where "z = 1972 + q"
  obtain a b c where 1:
    "DayFromYear z = 365 * z - 719050 + a - b + c"
    "4 * a \<le> z - 1969" "z - 1969 < 4 * a + 4"
    "100 * b \<le> z - 1901" "z - 1901 < 100 * b + 100"
    "400 * c \<le> z - 1601" "z - 1601 < 400 * c + 400"
    by (rule DayFromYear_split)
  have "d < DayFromYear z" using 1 assms z_def by linarith
  then show ?thesis by (simp add: z_def)
qed

lemma YearFromDay_bounds:
  "DayFromYear (YearFromDay d) \<le> d \<and> d < DayFromYear (YearFromDay d + 1)"
proof -
  define q where "q = (400 * d) div 146097"
  have q: "146097 * q \<le> 400 * d" "400 * d < 146097 * q + 146097"
    unfolding q_def by (rule int_div_bounds, simp)+
  have lo: "DayFromYear (1970 + q - 1) \<le> d" using q(1) by (rule DayFromYear_below)
  have hi: "d < DayFromYear (1970 + q + 2)" using q(2) by (rule DayFromYear_above)
  have e: "1970 + q + 1 + 1 = 1970 + q + 2" "1970 + q - 1 + 1 = 1970 + q" by simp_all
  show ?thesis
    unfolding YearFromDay_def Let_def q_def [symmetric]
    using lo hi by (auto simp add: e)
qed

lemma YearFromTime_bounds:
  "TimeFromYear (YearFromTime t) \<le> t \<and> t < TimeFromYear (YearFromTime t + 1)"
proof -
  define d where "d = t div 86400000"
  have d: "86400000 * d \<le> t" "t < 86400000 * d + 86400000"
    unfolding d_def by (rule int_div_bounds, simp)+
  have "DayFromYear (YearFromDay d) \<le> d" "d + 1 \<le> DayFromYear (YearFromDay d + 1)"
    using YearFromDay_bounds [of d] by simp_all
  then show ?thesis
    using d unfolding TimeFromYear_def YearFromTime_def Day_def msPerDay_def d_def [symmetric]
    by simp
qed


lemma DayFromYear_mono: "y \<le> z \<Longrightarrow> DayFromYear y \<le> DayFromYear z"
proof (induction z rule: int_ge_induct)
  case base
  show ?case by simp
next
  case (step i)
  then show ?case using DayFromYear_step [of i] by linarith
qed

lemma DayFromYear_strict_mono: "y < z \<Longrightarrow> DayFromYear y < DayFromYear z"
  using DayFromYear_mono [of "y + 1" z] DayFromYear_step [of y] by linarith

lemma TimeFromYear_strict_mono: "y < z \<Longrightarrow> TimeFromYear y < TimeFromYear z"
  using DayFromYear_strict_mono [of y z] by (simp add: TimeFromYear_def msPerDay_def)

lemma YearFromTime_largest: "TimeFromYear y \<le> t \<Longrightarrow> y \<le> YearFromTime t"
proof (rule ccontr)
  assume a: "TimeFromYear y \<le> t" and "\<not> y \<le> YearFromTime t"
  then have "YearFromTime t + 1 \<le> y" by simp
  then have "TimeFromYear (YearFromTime t + 1) \<le> TimeFromYear y"
    using TimeFromYear_strict_mono [of "YearFromTime t + 1" y]
    by (cases "YearFromTime t + 1 = y") auto
  then show False using a YearFromTime_bounds [of t] by linarith
qed

lemma YearFromTime_TimeFromYear: "YearFromTime (TimeFromYear y) = y"
proof -
  have "y \<le> YearFromTime (TimeFromYear y)" by (rule YearFromTime_largest) simp
  moreover have "\<not> y < YearFromTime (TimeFromYear y)"
  proof
    assume "y < YearFromTime (TimeFromYear y)"
    then have "TimeFromYear y < TimeFromYear (YearFromTime (TimeFromYear y))"
      by (rule TimeFromYear_strict_mono)
    then show False using YearFromTime_bounds [of "TimeFromYear y"] by linarith
  qed
  ultimately show ?thesis by linarith
qed

lemma YearFromTime_before_TimeFromYear: "YearFromTime (TimeFromYear (y + 1) - 1) = y"
proof -
  have "TimeFromYear y < TimeFromYear (y + 1)" by (rule TimeFromYear_strict_mono) simp
  then have "TimeFromYear y \<le> TimeFromYear (y + 1) - 1" by simp
  then have lo: "y \<le> YearFromTime (TimeFromYear (y + 1) - 1)" by (rule YearFromTime_largest)
  have "\<not> y < YearFromTime (TimeFromYear (y + 1) - 1)"
  proof
    assume "y < YearFromTime (TimeFromYear (y + 1) - 1)"
    then have "y + 1 \<le> YearFromTime (TimeFromYear (y + 1) - 1)" by simp
    then have "TimeFromYear (y + 1) \<le> TimeFromYear (YearFromTime (TimeFromYear (y + 1) - 1))"
      using TimeFromYear_strict_mono [of "y + 1" "YearFromTime (TimeFromYear (y + 1) - 1)"]
      by (cases "y + 1 = YearFromTime (TimeFromYear (y + 1) - 1)") auto
    then show False using YearFromTime_bounds [of "TimeFromYear (y + 1) - 1"] by linarith
  qed
  with lo show ?thesis by linarith
qed

lemma Date_new_Jan1_full:
  "Date_new tza year 0 1 0 0 0 = TimeClip (UTC tza (TimeFromYear (MakeFullYear year)))"
  by (simp add: Date_new_def MakeDay_def DaysBeforeMonth_def MakeTime_def MakeDate_def
      TimeFromYear_def Let_def mult.commute)

lemma Date_new_Jan1:
  assumes "year < 0 \<or> 99 < year"
  shows "Date_new tza year 0 1 0 0 0 = TimeClip (UTC tza (TimeFromYear year))"
proof -
  have "MakeFullYear year = year" using assms by (auto simp add: MakeFullYear_def)
  then show ?thesis by (simp add: Date_new_Jan1_full)
qed

lemma Jan1_midnight: "MakeDate (MakeDay year 0 1) (MakeTime 0 0 0 0) = TimeFromYear year"
  by (simp add: MakeDay_def DaysBeforeMonth_def MakeTime_def MakeDate_def TimeFromYear_def
      Let_def mult.commute)

lemma MakeFullYear_ge: "year \<le> MakeFullYear year"
  by (simp add: MakeFullYear_def)

lemma TimeFromYear_mono: "y \<le> z \<Longrightarrow> TimeFromYear y \<le> TimeFromYear z"
  using DayFromYear_mono [of y z] by (simp add: TimeFromYear_def msPerDay_def)

lemma now_before_next_year: "LocalTime tza now < TimeFromYear (getFullYear tza now + 1)"
  using YearFromTime_bounds [of "LocalTime tza now"] by (simp add: getFullYear_def)

lemma initializeCountdown_eq:
  "initializeCountdown tza now =
     (getFullYear tza now + 1, Date_new tza (getFullYear tza now + 1) 0 1 0 0 0)"
  by (simp add: initializeCountdown_def Let_def)

text \<open>
  Whatever year the constructor settles on, a target that is a valid Date lies after now,
  on a host whose local clock does not fall back behind the target's local midnight once
  the target is reached.
\<close>

lemma initializeCountdown_target_after_now:
  assumes "snd (initializeCountdown tza now) = Some t"
    and "\<And>s. UTC tza (TimeFromYear (MakeFullYear (getFullYear tza now + 1))) \<le> s \<Longrightarrow>
           TimeFromYear (MakeFullYear (getFullYear tza now + 1)) \<le> LocalTime tza s"
  shows "now < t"
proof -
  define L where "L = TimeFromYear (MakeFullYear (getFullYear tza now + 1))"
  have "TimeClip (UTC tza L) = Some t"
    using assms(1) by (simp add: initializeCountdown_eq Date_new_Jan1_full L_def)
  then have t: "t = UTC tza L" by (simp add: TimeClip_def split: if_splits)
  have "LocalTime tza now < TimeFromYear (getFullYear tza now + 1)"
    by (rule now_before_next_year)
  also have "\<dots> \<le> L"
    unfolding L_def by (rule TimeFromYear_mono) (rule MakeFullYear_ge)
  finally have lt: "LocalTime tza now < L" .
  show ?thesis
  proof (rule ccontr)
    assume "\<not> now < t"
    then have "UTC tza L \<le> now" by (simp add: t)
    then have "L \<le> LocalTime tza now" unfolding L_def by (rule assms(2))
    with lt show False by simp
  qed
qed

subsection \<open>The run over the global targetDate\<close>

lemma calculateTimeUnits_number_Whole:
  "calculateTimeUnits_number (Whole ms) = number_units (calculateTimeUnits ms)"
  by (simp add: calculateTimeUnits_number_def calculateTimeUnits_def floor_div_number_def
      rem_number_def number_units_def Let_def)




lemma updateCountdown_global_with_valid:
  "updateCountdown_global_with calc (Some target) now =
     (if target - now \<le> 0 then Celebrated else Displayed (calc (Whole (target - now))))"
  by (simp add: updateCountdown_global_with_def date_minus_def le_zero_def)


text \<open>With a valid Date in the global, the run is the one that \<open>tick\<close> describes.\<close>

lemma updateCountdown_global_valid:
  "updateCountdown_global (Some target) now =
     (case tick target now of
        Elapsed \<Rightarrow> Celebrated
      | Counting u \<Rightarrow> Displayed (number_units u))"
  by (simp add: updateCountdown_global_def updateCountdown_global_with_valid tick_def
      updateCountdown_with_def calculateTimeUnits_number_Whole)

section \<open>The claims\<close>

text \<open>
  C1. For a strictly positive remaining time, one run of \<open>updateCountdown\<close> decomposes it by
  the chain totalSeconds = floor(remaining/1000), totalMinutes = floor(totalSeconds/60),
  totalHours = floor(totalMinutes/60), days = floor(totalHours/24), hours = totalHours mod 24,
  minutes = totalMinutes mod 60, seconds = totalSeconds mod 60, and its outcome is
  \<open>Counting\<close> with these four units, which the page then displays.
\<close>

theorem tick_counting_decomposition:
  assumes "0 < target - now"
  shows "(let remaining = target - now;
              totalSeconds = remaining div 1000;
              totalMinutes = totalSeconds div 60;
              totalHours = totalMinutes div 60;
              u = \<lparr> days = totalHours div 24,
                    hours = totalHours mod 24,
                    minutes = totalMinutes mod 60,
                    seconds = totalSeconds mod 60 \<rparr>
          in tick target now = Counting u \<and>
             updateCountdown target now p = updateDisplay u p)"
proof -
  have "tick target now = Counting (decompose_floor_mod (target - now))"
    using assms by (simp add: tick_positive calculateTimeUnits_nonneg)
  then show ?thesis
    by (simp add: updateCountdown_def decompose_floor_mod_def Let_def)
qed

theorem tick_counting_decomposition_witness:
  "(0::int) < 1735689600000 - 1718452800000 \<and>
   tick 1735689600000 1718452800000 =
     Counting \<lparr> days = 199, hours = 12, minutes = 0, seconds = 0 \<rparr>"
  using tick_counting_decomposition [where target = 1735689600000 and now = 1718452800000]
  by (simp add: Let_def)

text \<open>
  C2. Round trip: for a non-negative duration \<open>d\<close> in milliseconds, the units of
  \<open>calculateTimeUnits d\<close> give back \<open>d\<close> once the sub-second remainder \<open>d mod 1000\<close> is
  added: days * 86400000 + hours * 3600000 + minutes * 60000 + seconds * 1000 + d mod 1000 = d.
\<close>

theorem calculateTimeUnits_round_trip:
  assumes "0 \<le> d"
  shows "days (calculateTimeUnits d) * 86400000
         + hours (calculateTimeUnits d) * 3600000
         + minutes (calculateTimeUnits d) * 60000
         + seconds (calculateTimeUnits d) * 1000
         + d mod 1000 = d"
  using assms recompose [of d]
  by (simp add: calculateTimeUnits_nonneg decompose_floor_mod_def)

theorem calculateTimeUnits_round_trip_witness:
  "(0::int) \<le> 93784567 \<and>
   calculateTimeUnits 93784567 = \<lparr> days = 1, hours = 2, minutes = 3, seconds = 4 \<rparr> \<and>
   days (calculateTimeUnits 93784567) * 86400000
   + hours (calculateTimeUnits 93784567) * 3600000
   + minutes (calculateTimeUnits 93784567) * 60000
   + seconds (calculateTimeUnits 93784567) * 1000
   + 93784567 mod 1000 = (93784567::int)"
  using calculateTimeUnits_round_trip [of 93784567]
  by (simp add: calculateTimeUnits_def js_floor_div_def js_rem_def Let_def)

text \<open>
  C3. The outcome of a run is \<open>Elapsed\<close> exactly when target - now \<le> 0 and \<open>Counting\<close>
  otherwise; with now equal to the target it is \<open>Elapsed\<close>, and with now one millisecond
  after the target it is \<open>Elapsed\<close>.
\<close>

theorem tick_elapsed_iff:
  "(tick target now = Elapsed) = (target - now \<le> 0) \<and>
   (tick target now = Counting (calculateTimeUnits (target - now))) = (0 < target - now) \<and>
   tick target target = Elapsed \<and>
   tick target (target + 1) = Elapsed"
  by (simp add: tick_def updateCountdown_with_def)

theorem tick_elapsed_iff_witness:
  "tick 1735689600000 1735689600000 = Elapsed \<and>
   tick 1735689600000 1735689600001 = Elapsed \<and>
   tick 1735689600000 1735689599999 = Counting \<lparr> days = 0, hours = 0, minutes = 0, seconds = 0 \<rparr>"
  using tick_elapsed_iff [of 1735689600000 1735689599999]
    tick_elapsed_iff [of 1735689600000 1735689600000]
  by (simp add: calculateTimeUnits_def js_floor_div_def js_rem_def Let_def)

text \<open>
  C4, as the script has it. \<open>updateDisplay\<close> formats all four fields with the same
  \<open>formatNumber\<close>: each of days, hours, minutes and seconds is padded with zeros to two
  characters. A value from 0 to 9 is shown as 0 followed by its digit, every other value as
  its decimal string without padding.
\<close>

theorem updateDisplay_pads_all_fields:
  "days_text (updateDisplay u p) = zero_padded2 (days u) \<and>
   hours_text (updateDisplay u p) = zero_padded2 (hours u) \<and>
   minutes_text (updateDisplay u p) = zero_padded2 (minutes u) \<and>
   seconds_text (updateDisplay u p) = zero_padded2 (seconds u)"
  by (simp add: updateDisplay_def formatNumber_zero_padded2)

theorem updateDisplay_pads_all_fields_witness:
  "days_text (updateDisplay \<lparr> days = 5, hours = 3, minutes = 12, seconds = 0 \<rparr>
     \<lparr> days_text = [], hours_text = [], minutes_text = [], seconds_text = [],
       countdown_visible = True, target_date_visible = True, celebration_shown = False,
       interval_running = True \<rparr>) = ''05'' \<and>
   hours_text (updateDisplay \<lparr> days = 5, hours = 3, minutes = 12, seconds = 0 \<rparr>
     \<lparr> days_text = [], hours_text = [], minutes_text = [], seconds_text = [],
       countdown_visible = True, target_date_visible = True, celebration_shown = False,
       interval_running = True \<rparr>) = ''03''"
  using updateDisplay_pads_all_fields [of "\<lparr> days = 5, hours = 3, minutes = 12, seconds = 0 \<rparr>"
     "\<lparr> days_text = [], hours_text = [], minutes_text = [], seconds_text = [],
       countdown_visible = True, target_date_visible = True, celebration_shown = False,
       interval_running = True \<rparr>"]
  by (simp add: zero_padded2_def digit_char_def)

text \<open>
  C4, as the specification has it, fails: with five days left the days field does not show
  the unpadded number 5 but 05.
\<close>

theorem days_unpadded_counterexample:
  "toString 5 = ''5'' \<and>
   days_text (updateDisplay \<lparr> days = 5, hours = 3, minutes = 12, seconds = 0 \<rparr>
     \<lparr> days_text = [], hours_text = [], minutes_text = [], seconds_text = [],
       countdown_visible = True, target_date_visible = True, celebration_shown = False,
       interval_running = True \<rparr>) \<noteq> toString 5"
  by (simp add: updateDisplay_def formatNumber_def padStart_def toString_def
      nat_digits_small digit_char_def)

text \<open>
  C5. For a non-negative duration the decomposition has hours in 0..23, minutes in 0..59,
  seconds in 0..59 and days \<ge> 0; days is the whole quotient by the milliseconds of a day,
  so nothing bounds it from above.
\<close>

theorem calculateTimeUnits_ranges:
  assumes "0 \<le> d"
  shows "0 \<le> hours (calculateTimeUnits d) \<and> hours (calculateTimeUnits d) \<le> 23 \<and>
         0 \<le> minutes (calculateTimeUnits d) \<and> minutes (calculateTimeUnits d) \<le> 59 \<and>
         0 \<le> seconds (calculateTimeUnits d) \<and> seconds (calculateTimeUnits d) \<le> 59 \<and>
         0 \<le> days (calculateTimeUnits d) \<and>
         days (calculateTimeUnits d) = d div 86400000"
proof -
  define s where "s = d div 1000"
  define m where "m = s div 60"
  define h where "h = m div 60"
  define D where "D = h div 24"
  define H where "H = h mod 24"
  define M where "M = m mod 60"
  define S where "S = s mod 60"
  have "calculateTimeUnits d = decompose_floor_mod d"
    using assms by (rule calculateTimeUnits_nonneg)
  then have u: "calculateTimeUnits d = \<lparr> days = D, hours = H, minutes = M, seconds = S \<rparr>"
    by (simp only: decompose_floor_mod_def s_def m_def h_def D_def H_def M_def S_def)
  have q: "D = d div 86400000"
    unfolding D_def h_def m_def s_def by (rule day_quotient)
  have "0 \<le> d div 86400000" using assms by (simp add: pos_imp_zdiv_nonneg_iff)
  then have dd: "0 \<le> D" by (simp only: q)
  have hh: "0 \<le> H" "H \<le> 23"
    unfolding H_def using int_mod_le_pred [of 24 h] by simp_all
  have mm: "0 \<le> M" "M \<le> 59"
    unfolding M_def using int_mod_le_pred [of 60 m] by simp_all
  have ss: "0 \<le> S" "S \<le> 59"
    unfolding S_def using int_mod_le_pred [of 60 s] by simp_all
  show ?thesis
    unfolding u using dd hh mm ss q by simp
qed

theorem calculateTimeUnits_ranges_witness:
  "(0::int) \<le> 8640000000000000 \<and>
   hours (calculateTimeUnits 8640000000000000) \<le> 23 \<and>
   minutes (calculateTimeUnits 8640000000000000) \<le> 59 \<and>
   seconds (calculateTimeUnits 8640000000000000) \<le> 59 \<and>
   days (calculateTimeUnits 8640000000000000) = 100000000"
  using calculateTimeUnits_ranges [of 8640000000000000] by simp

text \<open>
  C6. For a fixed target, once a run has the outcome \<open>Elapsed\<close>, every later run with now
  at or after the target has the outcome \<open>Elapsed\<close> too, and the page stays on the
  celebration view.
\<close>

theorem tick_elapsed_stays:
  assumes "tick target now1 = Elapsed" and "target \<le> now2"
  shows "tick target now2 = Elapsed \<and>
         celebration_shown (updateCountdown target now2 (updateCountdown target now1 p)) \<and>
         \<not> countdown_visible (updateCountdown target now2 (updateCountdown target now1 p))"
proof -
  have "tick target now2 = Elapsed" using assms(2) by (simp add: tick_nonpositive)
  then show ?thesis by (simp add: updateCountdown_def showCelebration_def)
qed

theorem tick_elapsed_stays_witness:
  "tick 1735689600000 1735689600000 = Elapsed \<and> (1735689600000::int) \<le> 1735689601000 \<and>
   tick 1735689600000 1735689601000 = Elapsed"
proof -
  have 1: "tick 1735689600000 1735689600000 = Elapsed"
    by (simp add: tick_def updateCountdown_with_def)
  have 2: "(1735689600000::int) \<le> 1735689601000" by simp
  show ?thesis using 1 2 tick_elapsed_stays [OF 1 2] by simp
qed

text \<open>
  C7. Let \<open>y\<close> be the local year of now. Whenever \<open>initializeCountdown\<close> yields a target
  that is a valid Date, the target is strictly greater than now. For every instant now
  that the clock delivers (\<open>y + 1\<close> is not one of the years 0 to 99, which the constructor
  reads as 1900 + year, and local midnight of January 1 of \<open>y + 1\<close> is within the Date
  range) the target year is \<open>y + 1\<close> and the target is January 1, 00:00:00 local time, of
  \<open>y + 1\<close>: the local time \<open>TimeFromYear (y + 1)\<close>, which is month 0, date 1, time
  0:00:00.000 of \<open>y + 1\<close> and the first millisecond of that year. The host is one whose
  local clock does not fall back behind the target's local midnight once the target is
  reached; its offset may change otherwise, as it does with daylight saving.
\<close>

theorem initializeCountdown_next_new_year:
  assumes "\<And>s. UTC tza (TimeFromYear (MakeFullYear (getFullYear tza now + 1))) \<le> s \<Longrightarrow>
             TimeFromYear (MakeFullYear (getFullYear tza now + 1)) \<le> LocalTime tza s"
  shows "(snd (initializeCountdown tza now) = Some t \<longrightarrow> now < t) \<and>
         ((getFullYear tza now + 1 < 0 \<or> 99 < getFullYear tza now + 1) \<and>
          \<bar>UTC tza (TimeFromYear (getFullYear tza now + 1))\<bar> \<le> 8640000000000000 \<longrightarrow>
            initializeCountdown tza now =
              (getFullYear tza now + 1,
               Some (UTC tza (TimeFromYear (getFullYear tza now + 1)))) \<and>
            now < UTC tza (TimeFromYear (getFullYear tza now + 1)) \<and>
            TimeFromYear (getFullYear tza now + 1) =
              MakeDate (MakeDay (getFullYear tza now + 1) 0 1) (MakeTime 0 0 0 0) \<and>
            YearFromTime (TimeFromYear (getFullYear tza now + 1)) = getFullYear tza now + 1 \<and>
            YearFromTime (TimeFromYear (getFullYear tza now + 1) - 1) = getFullYear tza now)"
proof -
  define y where "y = getFullYear tza now"
  define L where "L = TimeFromYear (y + 1)"
  have after: "now < u" if "snd (initializeCountdown tza now) = Some u" for u
    using that assms by (rule initializeCountdown_target_after_now)
  have A: "snd (initializeCountdown tza now) = Some t \<longrightarrow> now < t"
    using after by blast
  have B: "initializeCountdown tza now = (y + 1, Some (UTC tza L)) \<and>
           now < UTC tza L \<and>
           L = MakeDate (MakeDay (y + 1) 0 1) (MakeTime 0 0 0 0) \<and>
           YearFromTime L = y + 1 \<and>
           YearFromTime (L - 1) = y"
    if year: "y + 1 < 0 \<or> 99 < y + 1" and range: "\<bar>UTC tza L\<bar> \<le> 8640000000000000"
  proof -
    have "Date_new tza (y + 1) 0 1 0 0 0 = TimeClip (UTC tza L)"
      using year unfolding L_def by (rule Date_new_Jan1)
    also have "\<dots> = Some (UTC tza L)"
      using range by (simp add: TimeClip_def)
    finally have 1: "initializeCountdown tza now = (y + 1, Some (UTC tza L))"
      by (simp add: initializeCountdown_eq y_def)
    then have "snd (initializeCountdown tza now) = Some (UTC tza L)" by simp
    then have 2: "now < UTC tza L" by (rule after)
    have 3: "L = MakeDate (MakeDay (y + 1) 0 1) (MakeTime 0 0 0 0)"
      unfolding L_def by (rule Jan1_midnight [symmetric])
    have 4: "YearFromTime L = y + 1"
      unfolding L_def by (rule YearFromTime_TimeFromYear)
    have 5: "YearFromTime (L - 1) = y"
      unfolding L_def by (rule YearFromTime_before_TimeFromYear)
    show ?thesis
      by (intro conjI) (rule 1, rule 2, rule 3, rule 4, rule 5)
  qed
  from A B show ?thesis
    unfolding L_def y_def by blast
qed

theorem initializeCountdown_next_new_year_witness:
  "getFullYear sydney_2024 1718452800000 = 2024 \<and>
   initializeCountdown sydney_2024 1718452800000 = (2025, Some 1735650000000) \<and>
   (1718452800000::int) < 1735650000000"
proof -
  have y: "getFullYear sydney_2024 1718452800000 = 2024"
    by (simp add: getFullYear_def LocalTime_def sydney_2024_def YearFromTime_def
        YearFromDay_def Day_def msPerDay_def DayFromYear_def Let_def)
  have f: "MakeFullYear 2025 = 2025"
    by (simp add: MakeFullYear_def)
  have L: "TimeFromYear 2025 = 1735689600000"
    by (simp add: TimeFromYear_def DayFromYear_def msPerDay_def)
  have u: "UTC sydney_2024 1735689600000 = 1735650000000"
    by (simp add: UTC_def sydney_2024_def)
  have zone: "\<And>s. UTC sydney_2024
                     (TimeFromYear (MakeFullYear (getFullYear sydney_2024 1718452800000 + 1))) \<le> s
              \<Longrightarrow> TimeFromYear (MakeFullYear (getFullYear sydney_2024 1718452800000 + 1))
                    \<le> LocalTime sydney_2024 s"
    by (simp add: y f L u LocalTime_def sydney_2024_def)
  have h: "(getFullYear sydney_2024 1718452800000 + 1 < 0 \<or>
            99 < getFullYear sydney_2024 1718452800000 + 1) \<and>
           \<bar>UTC sydney_2024 (TimeFromYear (getFullYear sydney_2024 1718452800000 + 1))\<bar>
             \<le> 8640000000000000"
    by (simp add: y L u)
  have "initializeCountdown sydney_2024 1718452800000 =
          (getFullYear sydney_2024 1718452800000 + 1,
           Some (UTC sydney_2024 (TimeFromYear (getFullYear sydney_2024 1718452800000 + 1))))"
    by (rule initializeCountdown_next_new_year [THEN conjunct2, THEN mp, THEN conjunct1])
      (rule zone, assumption, rule h)
  then have i: "initializeCountdown sydney_2024 1718452800000 = (2025, Some 1735650000000)"
    by (simp add: y L u)
  then have v: "snd (initializeCountdown sydney_2024 1718452800000) = Some 1735650000000"
    by simp
  have "snd (initializeCountdown sydney_2024 1718452800000) = Some 1735650000000 \<longrightarrow>
          (1718452800000::int) < 1735650000000"
    by (rule initializeCountdown_next_new_year [THEN conjunct1]) (rule zone)
  then have "(1718452800000::int) < 1735650000000"
    using v by (rule mp)
  with y i show ?thesis by simp
qed

text \<open>
  C8. The conditional on \<open>now >= newYearThisYear\<close> changes nothing: for every now,
  \<open>initializeCountdown\<close> gives the target year \<open>currentYear + 1\<close> and the same target as
  the reimplementation that targets \<open>currentYear + 1\<close> without the conditional.
\<close>

theorem initializeCountdown_conditional_dead:
  "initializeCountdown tza now = initialize_unconditional tza now \<and>
   fst (initializeCountdown tza now) = getFullYear tza now + 1"
  by (simp add: initializeCountdown_def initialize_unconditional_def Let_def)

theorem initializeCountdown_conditional_dead_witness:
  "initializeCountdown (fixed_zone 19800000) 1718452800000 =
     initialize_unconditional (fixed_zone 19800000) 1718452800000 \<and>
   fst (initializeCountdown (fixed_zone 19800000) 1718452800000) = 2025"
proof -
  have y: "getFullYear (fixed_zone 19800000) 1718452800000 = 2024"
    by (simp add: getFullYear_def LocalTime_def fixed_zone_def YearFromTime_def
        YearFromDay_def Day_def msPerDay_def DayFromYear_def Let_def)
  note c = initializeCountdown_conditional_dead [of "fixed_zone 19800000" 1718452800000]
  from c have 1: "initializeCountdown (fixed_zone 19800000) 1718452800000 =
                    initialize_unconditional (fixed_zone 19800000) 1718452800000"
    by (rule conjunct1)
  from c have "fst (initializeCountdown (fixed_zone 19800000) 1718452800000) =
                 getFullYear (fixed_zone 19800000) 1718452800000 + 1"
    by (rule conjunct2)
  then have 2: "fst (initializeCountdown (fixed_zone 19800000) 1718452800000) = 2025"
    by (simp add: y)
  show ?thesis using 1 2 by (rule conjI)
qed




text \<open>
  C10. For a duration \<open>d\<close> with 0 < d < 1000 all four units are zero, while the outcome of
  the run is still \<open>Counting\<close>.
\<close>

theorem last_second_all_zero:
  assumes "0 < d" and "d < 1000"
  shows "calculateTimeUnits d = \<lparr> days = 0, hours = 0, minutes = 0, seconds = 0 \<rparr> \<and>
         tick (now + d) now = Counting \<lparr> days = 0, hours = 0, minutes = 0, seconds = 0 \<rparr>"
proof -
  have "d div 1000 = 0" using assms by simp
  then have "calculateTimeUnits d = \<lparr> days = 0, hours = 0, minutes = 0, seconds = 0 \<rparr>"
    by (simp add: calculateTimeUnits_def js_floor_div_def js_rem_def Let_def)
  then show ?thesis using assms(1) by (simp add: tick_def updateCountdown_with_def)
qed

theorem last_second_all_zero_witness:
  "(0::int) < 999 \<and> (999::int) < 1000 \<and>
   calculateTimeUnits 999 = \<lparr> days = 0, hours = 0, minutes = 0, seconds = 0 \<rparr> \<and>
   tick (1735689599001 + 999) 1735689599001 =
     Counting \<lparr> days = 0, hours = 0, minutes = 0, seconds = 0 \<rparr>"
  using last_second_all_zero [of 999 1735689599001] by simp

end
